theory Spec2Isabelle
  imports Complex_Main
begin

section \<open>The SLM interface module (\<open>slm_interface.py\<close>)\<close>

text \<open>
  The module declares two dataclasses, \<open>Exercise\<close> and \<open>Evaluation\<close>, and the abstract
  base class \<open>SLMInterface\<close> with three abstract methods. It has no function bodies of
  its own: what it does is what the \<open>@dataclass\<close> decorator, the \<open>ABC\<close> base class and
  the \<open>def\<close> signatures make Python do. Those are modelled here: objects live in a
  store and are referred to by address, construction binds arguments to fields and fills
  in the declared defaults, and every \<open>raise\<close> is an error value.
\<close>

subsection \<open>Values\<close>

text \<open>
  A Python \<open>float\<close> is a finite number, one of the two infinities, or NaN. The finite
  doubles are embedded in the reals; no arithmetic is done on them here.
\<close>

datatype py_float = Finite real | PosInf | NegInf | NaN

fun isfinite :: "py_float \<Rightarrow> bool" where
  "isfinite (Finite x) = True"
| "isfinite PosInf = False"
| "isfinite NegInf = False"
| "isfinite NaN = False"

text \<open>\<open>==\<close> on floats: NaN is equal to nothing, not even to itself.\<close>

fun float_eq :: "py_float \<Rightarrow> py_float \<Rightarrow> bool" where
  "float_eq NaN y = False"
| "float_eq x NaN = False"
| "float_eq x y = (x = y)"

type_synonym addr = nat

text \<open>
  The values an \<open>Any\<close> slot can hold: \<open>None\<close>, the scalars, sequences, and references
  to objects of the store.
\<close>

datatype pyval =
    PyNone
  | PyBool bool
  | PyInt int
  | PyFloat py_float
  | PyStr string
  | PyList "pyval list"
  | PyRef addr

datatype py_error = TypeError | AttributeError | FrozenInstanceError

subsection \<open>The two dataclasses\<close>

text \<open>
  The parameters of the \<open>@dataclass\<close> decorator that matter below. Both classes are
  decorated with a bare \<open>@dataclass\<close>, which takes the defaults \<open>eq=True\<close> and
  \<open>frozen=False\<close>.
\<close>

record dataclass_params =
  eq :: bool
  frozen :: bool

definition dataclass_defaults :: dataclass_params where
  "dataclass_defaults = \<lparr>eq = True, frozen = False\<rparr>"

definition Exercise_params :: dataclass_params where
  "Exercise_params = dataclass_defaults"

definition Evaluation_params :: dataclass_params where
  "Evaluation_params = dataclass_defaults"

text \<open>
  \<open>Exercise\<close>: \<open>options\<close> is \<open>Optional[List[str]]\<close>, \<open>answer\<close> is \<open>Optional[Any]\<close>
  (so \<open>PyNone\<close> is its \<open>None\<close>), and \<open>metadata\<close> holds a reference to a dict object:
  dicts are mutable and may be shared, so the field stores the address. Every field has
  its annotated type (Python does not check annotations when the program runs; the
  records describe the values the declarations intend).
\<close>

record Exercise =
  prompt :: string
  options :: "string list option"
  answer :: pyval
  metadata :: addr

record Evaluation =
  is_correct :: bool
  score :: py_float
  feedback :: "string option"

subsection \<open>The store\<close>

datatype obj =
    Dict "string \<rightharpoonup> pyval"
  | ExerciseObj Exercise
  | EvaluationObj Evaluation

text \<open>
  The store is the list of the objects allocated so far; an object's address is its
  index, and allocation appends. Nothing is ever freed while it can still be reached.
\<close>

type_synonym heap = "obj list"

definition new :: "heap \<Rightarrow> obj \<Rightarrow> addr \<times> heap" where
  "new h ob = (length h, h @ [ob])"

text \<open>
  Reading an object through a reference. A reference that does not lead to an object of
  the expected class is an error (Python has no dangling references; the model reports
  an address outside the store the same way).
\<close>

definition get_Evaluation :: "heap \<Rightarrow> addr \<Rightarrow> py_error + Evaluation" where
  "get_Evaluation h r =
     (if r < length h
      then (case h ! r of EvaluationObj e \<Rightarrow> Inr e | _ \<Rightarrow> Inl AttributeError)
      else Inl AttributeError)"

subsection \<open>Construction\<close>

text \<open>
  The generated \<open>__init__\<close> of \<open>Evaluation\<close> is
  \<open>__init__(self, is_correct, score, feedback=None)\<close>. An argument is \<open>Some v\<close> when the
  call supplies it and \<open>None\<close> when the call leaves it out; a parameter without a default
  that is left out raises \<open>TypeError\<close>. The arguments are stored as they are: there is no
  \<open>__post_init__\<close> and no validation.
\<close>

definition Evaluation_init ::
  "heap \<Rightarrow> bool option \<Rightarrow> py_float option \<Rightarrow> string option option
     \<Rightarrow> py_error + (addr \<times> heap)" where
  "Evaluation_init h is_correct_arg score_arg feedback_arg =
     (case is_correct_arg of
        None \<Rightarrow> Inl TypeError
      | Some b \<Rightarrow>
          (case score_arg of
             None \<Rightarrow> Inl TypeError
           | Some s \<Rightarrow>
               Inr (new h (EvaluationObj
                 \<lparr>is_correct = b, score = s,
                  feedback = (case feedback_arg of None \<Rightarrow> None | Some f \<Rightarrow> f)\<rparr>))))"

definition get_Exercise :: "heap \<Rightarrow> addr \<Rightarrow> py_error + Exercise" where
  "get_Exercise h r =
     (if r < length h
      then (case h ! r of ExerciseObj e \<Rightarrow> Inr e | _ \<Rightarrow> Inl AttributeError)
      else Inl AttributeError)"

definition get_dict :: "heap \<Rightarrow> addr \<Rightarrow> py_error + (string \<rightharpoonup> pyval)" where
  "get_dict h r =
     (if r < length h
      then (case h ! r of Dict m \<Rightarrow> Inr m | _ \<Rightarrow> Inl TypeError)
      else Inl TypeError)"

text \<open>
  The generated \<open>__init__\<close> of \<open>Exercise\<close> is
  \<open>__init__(self, prompt, options=None, answer=None, metadata=<factory>)\<close>. The instance
  is allocated first. When \<open>metadata\<close> is left out, \<open>default_factory=dict\<close> makes the
  body call \<open>dict()\<close>: a new, empty dict object is allocated in that very call and its
  address stored in the field. When \<open>metadata\<close> is supplied, the reference passed is
  stored, whatever else holds it.
\<close>

definition Exercise_init ::
  "heap \<Rightarrow> string option \<Rightarrow> string list option option \<Rightarrow> pyval option \<Rightarrow> addr option
     \<Rightarrow> py_error + (addr \<times> heap)" where
  "Exercise_init h prompt_arg options_arg answer_arg metadata_arg =
     (case prompt_arg of
        None \<Rightarrow> Inl TypeError
      | Some p \<Rightarrow>
          (let r = length h;
               os = (case options_arg of None \<Rightarrow> None | Some v \<Rightarrow> v);
               a = (case answer_arg of None \<Rightarrow> PyNone | Some v \<Rightarrow> v)
           in case metadata_arg of
                Some m \<Rightarrow>
                  Inr (r, h @ [ExerciseObj
                    \<lparr>prompt = p, options = os, answer = a, metadata = m\<rparr>])
              | None \<Rightarrow>
                  Inr (r, h @ [ExerciseObj
                    \<lparr>prompt = p, options = os, answer = a, metadata = Suc r\<rparr>,
                    Dict Map.empty])))"

subsection \<open>Assignment to fields and mutation of dicts\<close>

text \<open>
  An assignment \<open>ex.prompt = v\<close>, \<open>ex.options = v\<close>, \<open>ex.answer = v\<close> or
  \<open>ex.metadata = v\<close>. A dataclass with \<open>frozen=True\<close> gets a \<open>__setattr__\<close> that raises
  \<open>FrozenInstanceError\<close>; otherwise the assignment replaces the field of the object in
  the store, so every holder of the reference sees it.
\<close>

datatype Exercise_assignment =
    Set_prompt string
  | Set_options "string list option"
  | Set_answer pyval
  | Set_metadata addr

fun assign :: "Exercise_assignment \<Rightarrow> Exercise \<Rightarrow> Exercise" where
  "assign (Set_prompt v) e = e\<lparr>prompt := v\<rparr>"
| "assign (Set_options v) e = e\<lparr>options := v\<rparr>"
| "assign (Set_answer v) e = e\<lparr>answer := v\<rparr>"
| "assign (Set_metadata v) e = e\<lparr>metadata := v\<rparr>"

definition Exercise_setattr :: "heap \<Rightarrow> addr \<Rightarrow> Exercise_assignment \<Rightarrow> py_error + heap" where
  "Exercise_setattr h r a =
     (case get_Exercise h r of
        Inl err \<Rightarrow> Inl err
      | Inr e \<Rightarrow>
          if frozen Exercise_params then Inl FrozenInstanceError
          else Inr (h[r := ExerciseObj (assign a e)]))"

text \<open>
  Any in-place change of a dict (\<open>d[k] = v\<close>, \<open>del d[k]\<close>, \<open>d.clear()\<close>,
  \<open>d.update(...)\<close>) replaces the contents of the dict object at its address.
\<close>

definition dict_mutate ::
  "heap \<Rightarrow> addr \<Rightarrow> ((string \<rightharpoonup> pyval) \<Rightarrow> (string \<rightharpoonup> pyval)) \<Rightarrow> py_error + heap" where
  "dict_mutate h d f =
     (case get_dict h d of
        Inl err \<Rightarrow> Inl err
      | Inr m \<Rightarrow> Inr (h[d := Dict (f m)]))"

definition dict_setitem :: "heap \<Rightarrow> addr \<Rightarrow> string \<Rightarrow> pyval \<Rightarrow> py_error + heap" where
  "dict_setitem h d k v = dict_mutate h d (\<lambda>m. m(k \<mapsto> v))"

subsection \<open>Equality of evaluations\<close>

text \<open>
  With \<open>eq=True\<close> the decorator generates
  \<^verbatim>\<open>
  def __eq__(self, other):
      if other.__class__ is self.__class__:
          return (self.is_correct, self.score, self.feedback) ==
                 (other.is_correct, other.score, other.feedback)
      return NotImplemented
  \<close>
  and with \<open>eq=False\<close> the class keeps \<open>object.__eq__\<close>, which compares identity.
  The booleans and the optional strings are compared as values and the floats by
  \<open>float_eq\<close>. (A tuple comparison also takes an element to be equal to itself when
  both tuples hold the very same object. Floats are values here, so that shortcut,
  which only shows for one NaN object held by both evaluations, is not represented.)
\<close>

definition Evaluation_fields_eq :: "Evaluation \<Rightarrow> Evaluation \<Rightarrow> bool" where
  "Evaluation_fields_eq a b =
     (is_correct a = is_correct b \<and> float_eq (score a) (score b) \<and> feedback a = feedback b)"

text \<open>
  The expression \<open>a == b\<close> for a reference \<open>a\<close> to an \<open>Evaluation\<close>. When \<open>b\<close> is of
  another class \<open>__eq__\<close> returns \<open>NotImplemented\<close>, Python falls back to identity,
  and two objects of different classes are never identical.
\<close>

definition Evaluation_eq :: "heap \<Rightarrow> addr \<Rightarrow> addr \<Rightarrow> py_error + bool" where
  "Evaluation_eq h r1 r2 =
     (case get_Evaluation h r1 of
        Inl err \<Rightarrow> Inl err
      | Inr a \<Rightarrow>
          if eq Evaluation_params
          then (case get_Evaluation h r2 of
                  Inr b \<Rightarrow> Inr (Evaluation_fields_eq a b)
                | Inl _ \<Rightarrow> Inr False)
          else Inr (r1 = r2))"

subsection \<open>The declared fields\<close>

text \<open>
  The type annotations of the module, and what \<open>dataclasses.fields\<close> lists for each
  class: the fields in declaration order, each with its annotation.
\<close>

datatype py_type =
    TStr
  | TBool
  | TFloat
  | TAny
  | TOptional py_type
  | TList py_type
  | TDict py_type py_type
  | TClass string

fun class_names :: "py_type \<Rightarrow> string list" where
  "class_names (TClass c) = [c]"
| "class_names (TOptional t) = class_names t"
| "class_names (TList t) = class_names t"
| "class_names (TDict k v) = class_names k @ class_names v"
| "class_names t = []"

definition Exercise_fields :: "(string \<times> py_type) list" where
  "Exercise_fields =
     [(''prompt'', TStr),
      (''options'', TOptional (TList TStr)),
      (''answer'', TOptional TAny),
      (''metadata'', TDict TStr TAny)]"

definition Evaluation_fields :: "(string \<times> py_type) list" where
  "Evaluation_fields =
     [(''is_correct'', TBool),
      (''score'', TFloat),
      (''feedback'', TOptional TStr)]"

subsection \<open>The signatures of the three operations\<close>

text \<open>
  A signature as the \<open>def\<close> lines write it, \<open>self\<close> included: the parameters that
  may be passed by position or by keyword, the keyword-only parameters (those after a
  bare \<open>*\<close>), and whether a trailing \<open>**kwargs\<close> collects the other keywords. None of
  the three signatures has a default or a \<open>*args\<close>.
\<close>

record signature =
  positional :: "string list"
  keyword_only :: "string list"
  var_keyword :: bool

definition generate_exercise_sig :: signature where
  "generate_exercise_sig =
     \<lparr>positional = [''self''], keyword_only = [''exercise_type'', ''level''],
      var_keyword = True\<rparr>"

definition evaluate_response_sig :: signature where
  "evaluate_response_sig =
     \<lparr>positional = [''self'', ''exercise'', ''response''], keyword_only = [],
      var_keyword = True\<rparr>"

definition provide_feedback_sig :: signature where
  "provide_feedback_sig =
     \<lparr>positional = [''self'', ''exercise'', ''response''], keyword_only = [],
      var_keyword = True\<rparr>"

text \<open>
  Python's binding of a call \<open>f(a1, ..., an, k1=v1, ..., km=vm)\<close> to a signature. More
  positional arguments than positional parameters: \<open>TypeError\<close>. Each keyword goes to
  the parameter of that name (\<open>TypeError\<close> when it already has a value), otherwise into
  \<open>**kwargs\<close> (\<open>TypeError\<close> when there is none, or on a repeated keyword). A parameter
  left without a value at the end: \<open>TypeError\<close>. The result is the values of the
  parameters and the collected \<open>kwargs\<close>.
\<close>

type_synonym bindings = "(string \<times> pyval) list"

fun bind_keywords ::
  "signature \<Rightarrow> bindings \<Rightarrow> bindings \<Rightarrow> bindings \<Rightarrow> py_error + (bindings \<times> bindings)" where
  "bind_keywords sg bound extra [] = Inr (bound, extra)"
| "bind_keywords sg bound extra ((k, v) # kws) =
     (if k \<in> set (positional sg @ keyword_only sg)
      then (if map_of bound k \<noteq> None then Inl TypeError
            else bind_keywords sg (bound @ [(k, v)]) extra kws)
      else if var_keyword sg
      then (if map_of extra k \<noteq> None then Inl TypeError
            else bind_keywords sg bound (extra @ [(k, v)]) kws)
      else Inl TypeError)"

definition bind_args ::
  "signature \<Rightarrow> pyval list \<Rightarrow> bindings \<Rightarrow> py_error + (bindings \<times> bindings)" where
  "bind_args sg args kws =
     (if length (positional sg) < length args then Inl TypeError
      else case bind_keywords sg (zip (positional sg) args) [] kws of
             Inl err \<Rightarrow> Inl err
           | Inr (bound, extra) \<Rightarrow>
               if list_all (\<lambda>p. map_of bound p \<noteq> None) (positional sg @ keyword_only sg)
               then Inr (bound, extra)
               else Inl TypeError)"

text \<open>
  A method call \<open>provider.m(a1, ..., an, k1=v1, ..., km=vm)\<close>: the receiver is passed
  as the first positional argument, so it becomes the value of \<open>self\<close>.
\<close>

definition call_method ::
  "signature \<Rightarrow> pyval \<Rightarrow> pyval list \<Rightarrow> bindings \<Rightarrow> py_error + (bindings \<times> bindings)" where
  "call_method sg receiver args kws = bind_args sg (receiver # args) kws"

subsection \<open>The abstract base class\<close>

text \<open>
  A class, as far as instantiation looks at it: the methods an attribute lookup finds
  (the class's own definitions before the inherited ones), each abstract (decorated with
  \<open>@abstractmethod\<close>) or concrete (any other definition of the name), and
  \<open>__abstractmethods__\<close>.
\<close>

datatype method_kind = Abstract | Concrete

record py_class =
  methods :: "(string \<times> method_kind) list"
  abstractmethods :: "string list"

text \<open>
  \<open>class C(base): <namespace>\<close> under the metaclass \<open>ABCMeta\<close>, for a single base. The
  namespace is the class body's dict (one entry per name). \<open>ABCMeta.__new__\<close> collects
  as \<open>__abstractmethods__\<close> the abstract names of the namespace, and those names of the
  base's \<open>__abstractmethods__\<close> that still resolve to an abstract method in the new
  class.
\<close>

definition define_class :: "py_class \<Rightarrow> (string \<times> method_kind) list \<Rightarrow> py_class" where
  "define_class base namespace =
     (let ms = namespace @ methods base
      in \<lparr>methods = ms,
          abstractmethods =
            filter (\<lambda>n. map_of ms n = Some Abstract) (map fst namespace) @
            filter (\<lambda>n. map_of ms n = Some Abstract) (abstractmethods base)\<rparr>)"

definition ABC :: py_class where
  "ABC = \<lparr>methods = [], abstractmethods = []\<rparr>"

definition SLMInterface :: py_class where
  "SLMInterface =
     define_class ABC
       [(''generate_exercise'', Abstract),
        (''evaluate_response'', Abstract),
        (''provide_feedback'', Abstract)]"

text \<open>A chain of subclasses, each derived from the one before.\<close>

fun subclass_chain :: "py_class \<Rightarrow> (string \<times> method_kind) list list \<Rightarrow> py_class" where
  "subclass_chain base [] = base"
| "subclass_chain base (namespace # rest) = subclass_chain (define_class base namespace) rest"

text \<open>
  \<open>object.__new__\<close> refuses a class whose \<open>__abstractmethods__\<close> is not empty:
  \<open>TypeError: Can't instantiate abstract class\<close>.
\<close>

definition instantiate :: "py_class \<Rightarrow> py_error + unit" where
  "instantiate c = (if abstractmethods c = [] then Inr () else Inl TypeError)"


section \<open>Properties\<close>

subsection \<open>What the constructors return\<close>

lemma Exercise_init_default:
  "Exercise_init h (Some p) os a None =
     Inr (length h, h @ [ExerciseObj
       \<lparr>prompt = p, options = (case os of None \<Rightarrow> None | Some v \<Rightarrow> v),
        answer = (case a of None \<Rightarrow> PyNone | Some v \<Rightarrow> v), metadata = Suc (length h)\<rparr>,
       Dict Map.empty])"
  by (simp add: Exercise_init_def Let_def)

lemma Evaluation_init_given:
  "Evaluation_init h (Some b) (Some s) fb =
     Inr (length h, h @ [EvaluationObj
       \<lparr>is_correct = b, score = s, feedback = (case fb of None \<Rightarrow> None | Some f \<Rightarrow> f)\<rparr>])"
  by (simp add: Evaluation_init_def new_def)

lemma get_Exercise_here: "get_Exercise (h @ ExerciseObj e # t) (length h) = Inr e"
  by (simp add: get_Exercise_def)

lemma get_Evaluation_here: "get_Evaluation (h @ EvaluationObj e # t) (length h) = Inr e"
  by (simp add: get_Evaluation_def)

lemma get_dict_next: "get_dict (h @ [ob, Dict m]) (Suc (length h)) = Inr m"
  by (simp add: get_dict_def nth_append)

subsection \<open>Construction\<close>

text \<open>
  C5. An \<open>Evaluation\<close> can be constructed from \<open>is_correct\<close> and \<open>score\<close> alone, and its
  \<open>feedback\<close> is then \<open>None\<close>; \<open>feedback\<close> is the only optional field: leaving out
  \<open>is_correct\<close> or \<open>score\<close> raises \<open>TypeError\<close> whatever else is supplied.
\<close>

theorem Evaluation_feedback_only_optional:
  "(\<exists>r h' e. Evaluation_init h (Some b) (Some s) None = Inr (r, h')
       \<and> get_Evaluation h' r = Inr e
       \<and> is_correct e = b \<and> score e = s \<and> feedback e = None)
   \<and> Evaluation_init h None sc fb = Inl TypeError
   \<and> Evaluation_init h ic None fb = Inl TypeError"
proof -
  have "Evaluation_init h ic None fb = Inl TypeError"
    by (cases ic) (simp_all add: Evaluation_init_def)
  moreover have "Evaluation_init h None sc fb = Inl TypeError"
    by (simp add: Evaluation_init_def)
  moreover have "\<exists>r h' e. Evaluation_init h (Some b) (Some s) None = Inr (r, h')
       \<and> get_Evaluation h' r = Inr e
       \<and> is_correct e = b \<and> score e = s \<and> feedback e = None"
    by (simp add: Evaluation_init_def new_def get_Evaluation_def)
  ultimately show ?thesis by blast
qed

text \<open>
  C4. An \<open>Exercise\<close> constructed from a prompt alone has \<open>options\<close> \<open>None\<close>, \<open>answer\<close>
  \<open>None\<close> and an empty \<open>metadata\<close> dict, for every prompt string and in every store; and
  only \<open>prompt\<close> is required: a call that leaves it out raises \<open>TypeError\<close> whatever else
  it supplies.
\<close>

theorem Exercise_prompt_only:
  "(\<exists>r h' e. Exercise_init h (Some p) None None None = Inr (r, h')
       \<and> get_Exercise h' r = Inr e
       \<and> prompt e = p \<and> options e = None \<and> answer e = PyNone
       \<and> get_dict h' (metadata e) = Inr Map.empty)
   \<and> Exercise_init h None os a m = Inl TypeError"
proof
  let ?e = "\<lparr>prompt = p, options = None, answer = PyNone, metadata = Suc (length h)\<rparr>"
  let ?h' = "h @ [ExerciseObj ?e, Dict Map.empty]"
  have "Exercise_init h (Some p) None None None = Inr (length h, ?h')"
    by (simp add: Exercise_init_default)
  moreover have "get_Exercise ?h' (length h) = Inr ?e"
    by (rule get_Exercise_here)
  moreover have "get_dict ?h' (metadata ?e) = Inr Map.empty"
    by (simp add: get_dict_next)
  ultimately show "\<exists>r h' e. Exercise_init h (Some p) None None None = Inr (r, h')
       \<and> get_Exercise h' r = Inr e
       \<and> prompt e = p \<and> options e = None \<and> answer e = PyNone
       \<and> get_dict h' (metadata e) = Inr Map.empty"
    by (intro exI [of _ "length h"] exI [of _ ?h'] exI [of _ ?e]) simp
next
  show "Exercise_init h None os a m = Inl TypeError"
    by (simp add: Exercise_init_def)
qed

text \<open>
  C1, as stated, fails: the constructor does not look at the score, so
  \<open>Evaluation(True, float('inf'))\<close> is constructed and its score is not finite.
\<close>

theorem Evaluation_nonfinite_counterexample:
  "Evaluation_init [] (Some True) (Some PosInf) None =
     Inr (0, [EvaluationObj \<lparr>is_correct = True, score = PosInf, feedback = None\<rparr>])
   \<and> get_Evaluation [EvaluationObj \<lparr>is_correct = True, score = PosInf, feedback = None\<rparr>] 0 =
     Inr \<lparr>is_correct = True, score = PosInf, feedback = None\<rparr>
   \<and> \<not> isfinite (score \<lparr>is_correct = True, score = PosInf, feedback = None\<rparr>)"
  by (simp add: Evaluation_init_def new_def get_Evaluation_def)

text \<open>
  C1, amended. Constructing an \<open>Evaluation\<close> from a boolean and a float always
  succeeds and stores both unchanged: \<open>is_correct\<close> is the boolean given, and \<open>score\<close> is
  the float given, finite exactly when that float is finite. Nothing is validated, so
  the infinities and NaN are admitted as scores.
\<close>

theorem Evaluation_stores_arguments:
  "\<exists>r h' e. Evaluation_init h (Some b) (Some s) fb = Inr (r, h')
       \<and> get_Evaluation h' r = Inr e
       \<and> is_correct e = b \<and> score e = s \<and> isfinite (score e) = isfinite s"
proof -
  let ?e = "\<lparr>is_correct = b, score = s, feedback = (case fb of None \<Rightarrow> None | Some f \<Rightarrow> f)\<rparr>"
  have "Evaluation_init h (Some b) (Some s) fb = Inr (length h, h @ [EvaluationObj ?e])"
    by (rule Evaluation_init_given)
  moreover have "get_Evaluation (h @ [EvaluationObj ?e]) (length h) = Inr ?e"
    by (rule get_Evaluation_here)
  ultimately show ?thesis
    by (intro exI [of _ "length h"] exI [of _ "h @ [EvaluationObj ?e]"] exI [of _ ?e]) simp
qed

subsection \<open>Assignment to the fields of an exercise\<close>

lemma Exercise_not_frozen: "frozen Exercise_params = False"
  by (simp add: Exercise_params_def dataclass_defaults_def)

lemma get_Exercise_update:
  "get_Exercise h r = Inr e \<Longrightarrow> get_Exercise (h[r := ExerciseObj e']) r = Inr e'"
  by (simp add: get_Exercise_def split: if_splits)

text \<open>
  C2, as stated, fails: \<open>Exercise\<close> is not a frozen dataclass, so after
  \<open>ex = Exercise("a")\<close> the caller's assignment \<open>ex.prompt = "b"\<close> succeeds and the
  same object then has the prompt \<open>"b"\<close>.
\<close>

theorem Exercise_mutable_counterexample:
  "Exercise_init [] (Some ''a'') None None None =
     Inr (0, [ExerciseObj \<lparr>prompt = ''a'', options = None, answer = PyNone, metadata = 1\<rparr>,
              Dict Map.empty])
   \<and> Exercise_setattr
       [ExerciseObj \<lparr>prompt = ''a'', options = None, answer = PyNone, metadata = 1\<rparr>,
        Dict Map.empty] 0 (Set_prompt ''b'') =
     Inr [ExerciseObj \<lparr>prompt = ''b'', options = None, answer = PyNone, metadata = 1\<rparr>,
          Dict Map.empty]
   \<and> get_Exercise
       [ExerciseObj \<lparr>prompt = ''b'', options = None, answer = PyNone, metadata = 1\<rparr>,
        Dict Map.empty] 0 =
     Inr \<lparr>prompt = ''b'', options = None, answer = PyNone, metadata = 1\<rparr>
   \<and> prompt \<lparr>prompt = ''b'', options = None, answer = PyNone, metadata = 1\<rparr> \<noteq> ''a''"
  by (simp add: Exercise_init_def Exercise_setattr_def get_Exercise_def Exercise_not_frozen)

text \<open>
  C2, amended. An \<open>Exercise\<close> stays assignable after construction: for every
  \<open>Exercise\<close> object and each of its fields \<open>prompt\<close>, \<open>options\<close>, \<open>answer\<close> and
  \<open>metadata\<close>, a caller's assignment to the field succeeds, replaces exactly that
  field of that object, and leaves its other three fields and every other object of
  the store as they were.
\<close>

theorem Exercise_fields_assignable:
  assumes "get_Exercise h r = Inr e"
  shows "\<exists>h'. Exercise_setattr h r a = Inr h'
           \<and> length h' = length h
           \<and> (\<forall>r'. r' \<noteq> r \<longrightarrow> h' ! r' = h ! r')
           \<and> get_Exercise h' r = Inr
               (case a of
                  Set_prompt v \<Rightarrow>
                    \<lparr>prompt = v, options = options e, answer = answer e, metadata = metadata e\<rparr>
                | Set_options v \<Rightarrow>
                    \<lparr>prompt = prompt e, options = v, answer = answer e, metadata = metadata e\<rparr>
                | Set_answer v \<Rightarrow>
                    \<lparr>prompt = prompt e, options = options e, answer = v, metadata = metadata e\<rparr>
                | Set_metadata v \<Rightarrow>
                    \<lparr>prompt = prompt e, options = options e, answer = answer e, metadata = v\<rparr>)"
proof -
  let ?h' = "h[r := ExerciseObj (assign a e)]"
  have "Exercise_setattr h r a = Inr ?h'"
    using assms by (simp add: Exercise_setattr_def Exercise_not_frozen)
  moreover have "get_Exercise ?h' r = Inr (assign a e)"
    using assms by (rule get_Exercise_update)
  moreover have "assign a e =
      (case a of
         Set_prompt v \<Rightarrow>
           \<lparr>prompt = v, options = options e, answer = answer e, metadata = metadata e\<rparr>
       | Set_options v \<Rightarrow>
           \<lparr>prompt = prompt e, options = v, answer = answer e, metadata = metadata e\<rparr>
       | Set_answer v \<Rightarrow>
           \<lparr>prompt = prompt e, options = options e, answer = v, metadata = metadata e\<rparr>
       | Set_metadata v \<Rightarrow>
           \<lparr>prompt = prompt e, options = options e, answer = answer e, metadata = v\<rparr>)"
    by (cases a) simp_all
  ultimately show ?thesis
    by (intro exI [of _ ?h']) simp
qed

text \<open>
  The amended C2 at a freshly constructed exercise: \<open>ex.answer = "sat"\<close> changes the
  answer and nothing else.
\<close>

theorem Exercise_fields_assignable_witness:
  "get_Exercise
     [ExerciseObj \<lparr>prompt = ''a'', options = None, answer = PyNone, metadata = 1\<rparr>,
      Dict Map.empty] 0 =
     Inr \<lparr>prompt = ''a'', options = None, answer = PyNone, metadata = 1\<rparr>
   \<and> (\<exists>h'. Exercise_setattr
         [ExerciseObj \<lparr>prompt = ''a'', options = None, answer = PyNone, metadata = 1\<rparr>,
          Dict Map.empty] 0 (Set_answer (PyStr ''sat'')) = Inr h'
       \<and> get_Exercise h' 0 =
           Inr \<lparr>prompt = ''a'', options = None, answer = PyStr ''sat'', metadata = 1\<rparr>)"
proof -
  have g: "get_Exercise
     [ExerciseObj \<lparr>prompt = ''a'', options = None, answer = PyNone, metadata = 1\<rparr>,
      Dict Map.empty] 0 =
     Inr \<lparr>prompt = ''a'', options = None, answer = PyNone, metadata = 1\<rparr>"
    by (simp add: get_Exercise_def)
  show ?thesis
    using g Exercise_fields_assignable [OF g, of "Set_answer (PyStr ''sat'')"] by auto
qed

subsection \<open>Equality of evaluations\<close>

lemma Evaluation_eq_generated: "eq Evaluation_params = True"
  by (simp add: Evaluation_params_def dataclass_defaults_def)

text \<open>
  C6. Two \<open>Evaluation\<close> objects, at the same address or at different ones, whose
  \<open>is_correct\<close>, \<open>score\<close> and \<open>feedback\<close> fields are respectively equal compare equal
  under \<open>==\<close>: the comparison does not look at the identity of the objects. The scores
  are equal in Python's sense (\<open>float_eq\<close>, under which NaN equals nothing).
\<close>

theorem Evaluation_value_equality:
  assumes "get_Evaluation h r1 = Inr a" and "get_Evaluation h r2 = Inr b"
      and "is_correct a = is_correct b"
      and "float_eq (score a) (score b)"
      and "feedback a = feedback b"
  shows "Evaluation_eq h r1 r2 = Inr True"
  using assms by (simp add: Evaluation_eq_def Evaluation_eq_generated Evaluation_fields_eq_def)

text \<open>
  C6 at two evaluations constructed one after the other from the same arguments: they
  are two objects (addresses 0 and 1) and compare equal.
\<close>

theorem Evaluation_value_equality_witness:
  "Evaluation_init [] (Some True) (Some (Finite 1)) None =
     Inr (0, [EvaluationObj \<lparr>is_correct = True, score = Finite 1, feedback = None\<rparr>])
   \<and> Evaluation_init [EvaluationObj \<lparr>is_correct = True, score = Finite 1, feedback = None\<rparr>]
       (Some True) (Some (Finite 1)) None =
     Inr (1, [EvaluationObj \<lparr>is_correct = True, score = Finite 1, feedback = None\<rparr>,
              EvaluationObj \<lparr>is_correct = True, score = Finite 1, feedback = None\<rparr>])
   \<and> (0::nat) \<noteq> 1
   \<and> Evaluation_eq
       [EvaluationObj \<lparr>is_correct = True, score = Finite 1, feedback = None\<rparr>,
        EvaluationObj \<lparr>is_correct = True, score = Finite 1, feedback = None\<rparr>] 0 1 = Inr True"
proof -
  let ?e = "\<lparr>is_correct = True, score = Finite 1, feedback = None\<rparr>"
  have g0: "get_Evaluation [EvaluationObj ?e, EvaluationObj ?e] 0 = Inr ?e"
    by (simp add: get_Evaluation_def)
  have g1: "get_Evaluation [EvaluationObj ?e, EvaluationObj ?e] 1 = Inr ?e"
    by (simp add: get_Evaluation_def)
  have "Evaluation_eq [EvaluationObj ?e, EvaluationObj ?e] 0 1 = Inr True"
    using Evaluation_value_equality [OF g0 g1] by simp
  then show ?thesis
    by (simp add: Evaluation_init_given)
qed

subsection \<open>The default metadata\<close>

lemma dict_mutate_frame:
  assumes "dict_mutate h d f = Inr h'" and "d' \<noteq> d"
  shows "get_dict h' d' = get_dict h d'"
proof -
  from assms(1) obtain m where "h' = h[d := Dict (f m)]"
    by (auto simp add: dict_mutate_def split: sum.splits)
  with assms(2) show ?thesis
    by (simp add: get_dict_def)
qed

text \<open>
  C9. Two exercises constructed without a \<open>metadata\<close> argument, in whatever stores and
  with whatever else allocated in between, hold two different dict objects: each is
  new in its constructor call (its address is not one of the store before the call)
  and empty, and any in-place change of one of the two dicts leaves the other as it
  was. A dict is shared only when a caller passes an existing one as \<open>metadata\<close>.
\<close>

theorem default_metadata_independent:
  assumes c1: "Exercise_init h (Some p1) os1 a1 None = Inr (r1, h1)"
      and g1: "get_Exercise h1 r1 = Inr e1"
      and grow: "length h1 \<le> length h2"
      and c2: "Exercise_init h2 (Some p2) os2 a2 None = Inr (r2, h3)"
      and g2: "get_Exercise h3 r2 = Inr e2"
  shows "metadata e1 \<noteq> metadata e2
     \<and> length h \<le> metadata e1 \<and> length h2 \<le> metadata e2
     \<and> get_dict h1 (metadata e1) = Inr Map.empty
     \<and> get_dict h3 (metadata e2) = Inr Map.empty
     \<and> (\<forall>s f s'. dict_mutate s (metadata e1) f = Inr s'
           \<longrightarrow> get_dict s' (metadata e2) = get_dict s (metadata e2))
     \<and> (\<forall>s f s'. dict_mutate s (metadata e2) f = Inr s'
           \<longrightarrow> get_dict s' (metadata e1) = get_dict s (metadata e1))"
proof -
  from c1 have r1: "r1 = length h" and h1: "length h1 = length h + 2"
    by (auto simp add: Exercise_init_default)
  from c1 g1 have m1: "metadata e1 = Suc (length h)"
    by (auto simp add: Exercise_init_default get_Exercise_here)
  from c1 m1 have d1: "get_dict h1 (metadata e1) = Inr Map.empty"
    by (auto simp add: Exercise_init_default get_dict_next)
  from c2 g2 have m2: "metadata e2 = Suc (length h2)"
    by (auto simp add: Exercise_init_default get_Exercise_here)
  from c2 m2 have d2: "get_dict h3 (metadata e2) = Inr Map.empty"
    by (auto simp add: Exercise_init_default get_dict_next)
  from m1 m2 h1 grow have ne: "metadata e1 \<noteq> metadata e2"
    by simp
  from ne have "\<forall>s f s'. dict_mutate s (metadata e1) f = Inr s'
           \<longrightarrow> get_dict s' (metadata e2) = get_dict s (metadata e2)"
    by (auto intro: dict_mutate_frame)
  moreover from ne have "\<forall>s f s'. dict_mutate s (metadata e2) f = Inr s'
           \<longrightarrow> get_dict s' (metadata e1) = get_dict s (metadata e1)"
    by (auto intro: dict_mutate_frame)
  ultimately show ?thesis
    using ne m1 m2 d1 d2 by simp
qed

text \<open>
  C9 at \<open>a = Exercise("a"); b = Exercise("b"); a.metadata["level"] = 2\<close>: the
  metadata of \<open>b\<close> is still empty.
\<close>

theorem default_metadata_independent_witness:
  "Exercise_init [] (Some ''a'') None None None =
     Inr (0, [ExerciseObj \<lparr>prompt = ''a'', options = None, answer = PyNone, metadata = 1\<rparr>,
              Dict Map.empty])
   \<and> Exercise_init
       [ExerciseObj \<lparr>prompt = ''a'', options = None, answer = PyNone, metadata = 1\<rparr>,
        Dict Map.empty] (Some ''b'') None None None =
     Inr (2, [ExerciseObj \<lparr>prompt = ''a'', options = None, answer = PyNone, metadata = 1\<rparr>,
              Dict Map.empty,
              ExerciseObj \<lparr>prompt = ''b'', options = None, answer = PyNone, metadata = 3\<rparr>,
              Dict Map.empty])
   \<and> dict_setitem
       [ExerciseObj \<lparr>prompt = ''a'', options = None, answer = PyNone, metadata = 1\<rparr>,
        Dict Map.empty,
        ExerciseObj \<lparr>prompt = ''b'', options = None, answer = PyNone, metadata = 3\<rparr>,
        Dict Map.empty] 1 ''level'' (PyInt 2) =
     Inr [ExerciseObj \<lparr>prompt = ''a'', options = None, answer = PyNone, metadata = 1\<rparr>,
          Dict [''level'' \<mapsto> PyInt 2],
          ExerciseObj \<lparr>prompt = ''b'', options = None, answer = PyNone, metadata = 3\<rparr>,
          Dict Map.empty]
   \<and> get_dict
       [ExerciseObj \<lparr>prompt = ''a'', options = None, answer = PyNone, metadata = 1\<rparr>,
        Dict [''level'' \<mapsto> PyInt 2],
        ExerciseObj \<lparr>prompt = ''b'', options = None, answer = PyNone, metadata = 3\<rparr>,
        Dict Map.empty] 3 = Inr Map.empty"
proof -
  let ?e1 = "\<lparr>prompt = ''a'', options = None, answer = PyNone, metadata = 1\<rparr>"
  let ?e2 = "\<lparr>prompt = ''b'', options = None, answer = PyNone, metadata = 3\<rparr>"
  let ?h1 = "[ExerciseObj ?e1, Dict Map.empty]"
  let ?h3 = "[ExerciseObj ?e1, Dict Map.empty, ExerciseObj ?e2, Dict Map.empty]"
  let ?h4 = "[ExerciseObj ?e1, Dict [''level'' \<mapsto> PyInt 2], ExerciseObj ?e2, Dict Map.empty]"
  have c1: "Exercise_init [] (Some ''a'') None None None = Inr (0, ?h1)"
    by (simp add: Exercise_init_default)
  have g1: "get_Exercise ?h1 0 = Inr ?e1"
    by (simp add: get_Exercise_def)
  have grow: "length ?h1 \<le> length ?h1"
    by simp
  have c2: "Exercise_init ?h1 (Some ''b'') None None None = Inr (2, ?h3)"
    by (simp add: Exercise_init_default)
  have g2: "get_Exercise ?h3 2 = Inr ?e2"
    by (simp add: get_Exercise_def)
  have mut: "dict_mutate ?h3 (metadata ?e1) (\<lambda>m. m(''level'' \<mapsto> PyInt 2)) = Inr ?h4"
    by (simp add: dict_mutate_def get_dict_def)
  have "get_dict ?h4 (metadata ?e2) = get_dict ?h3 (metadata ?e2)"
    using default_metadata_independent [OF c1 g1 grow c2 g2] mut by blast
  then have "get_dict ?h4 3 = Inr Map.empty"
    by (simp add: get_dict_def)
  with c1 c2 mut show ?thesis
    by (simp add: dict_setitem_def)
qed

subsection \<open>How the three operations take their arguments\<close>

lemma bind_keywords_extra:
  assumes "var_keyword sg"
      and "distinct (map fst kws)"
      and "fst ` set kws \<inter> set (positional sg @ keyword_only sg) = {}"
      and "fst ` set kws \<inter> fst ` set extra = {}"
  shows "bind_keywords sg bound extra kws = Inr (bound, extra @ kws)"
  using assms
proof (induction kws arbitrary: extra)
  case Nil
  then show ?case by simp
next
  case (Cons kv kws)
  obtain k v where kv: "kv = (k, v)" by (cases kv)
  from Cons.prems kv have notparam: "k \<notin> set (positional sg @ keyword_only sg)"
    by auto
  from Cons.prems kv have "k \<notin> fst ` set extra"
    by auto
  then have unseen: "map_of extra k = None"
    by (simp add: map_of_eq_None_iff)
  from Cons.prems kv have "fst ` set kws \<inter> fst ` set (extra @ [(k, v)]) = {}"
    by auto
  with Cons.prems have "bind_keywords sg bound (extra @ [(k, v)]) kws =
      Inr (bound, (extra @ [(k, v)]) @ kws)"
    by (intro Cons.IH) auto
  with notparam unseen Cons.prems(1) kv show ?case
    by simp
qed

text \<open>
  A keyword that names a parameter which already has its value makes the call fail,
  wherever it stands among the keywords.
\<close>

lemma bind_keywords_rebound:
  assumes "k \<in> fst ` set kws"
      and "k \<in> set (positional sg @ keyword_only sg)"
      and "map_of bound k \<noteq> None"
  shows "bind_keywords sg bound extra kws = Inl TypeError"
  using assms
proof (induction kws arbitrary: bound extra)
  case Nil
  then show ?case by simp
next
  case (Cons kv kws)
  obtain k' v' where kv: "kv = (k', v')" by (cases kv)
  show ?case
  proof (cases "k' = k")
    case True
    with Cons.prems kv show ?thesis by simp
  next
    case False
    with Cons.prems kv have later: "k \<in> fst ` set kws"
      by auto
    from Cons.prems have still: "map_of (bound @ [(k', v')]) k \<noteq> None"
      by (auto simp add: map_add_def split: option.splits)
    have a: "bind_keywords sg (bound @ [(k', v')]) extra kws = Inl TypeError"
      using later Cons.prems(2) still by (rule Cons.IH)
    have b: "bind_keywords sg bound (extra @ [(k', v')]) kws = Inl TypeError"
      using later Cons.prems(2,3) by (rule Cons.IH)
    from a b kv show ?thesis
      by simp
  qed
qed

text \<open>
  So a keyword named \<open>self\<close> is never collected as an extra parameter: the receiver
  already is the value of \<open>self\<close>, and the call raises \<open>TypeError\<close>.
\<close>

lemma self_keyword_rejected:
  assumes "''self'' \<in> fst ` set kws"
  shows "call_method generate_exercise_sig rcv args kws = Inl TypeError"
    and "call_method evaluate_response_sig rcv args kws = Inl TypeError"
    and "call_method provide_feedback_sig rcv args kws = Inl TypeError"
proof -
  have "bind_keywords generate_exercise_sig
          (zip (positional generate_exercise_sig) (rcv # args)) [] kws = Inl TypeError"
    by (rule bind_keywords_rebound [OF assms]) (simp_all add: generate_exercise_sig_def)
  then show "call_method generate_exercise_sig rcv args kws = Inl TypeError"
    by (simp add: call_method_def bind_args_def)
  have "bind_keywords evaluate_response_sig
          (zip (positional evaluate_response_sig) (rcv # args)) [] kws = Inl TypeError"
    by (rule bind_keywords_rebound [OF assms]) (simp_all add: evaluate_response_sig_def)
  then show "call_method evaluate_response_sig rcv args kws = Inl TypeError"
    by (simp add: call_method_def bind_args_def)
  have "bind_keywords provide_feedback_sig
          (zip (positional provide_feedback_sig) (rcv # args)) [] kws = Inl TypeError"
    by (rule bind_keywords_rebound [OF assms]) (simp_all add: provide_feedback_sig_def)
  then show "call_method provide_feedback_sig rcv args kws = Inl TypeError"
    by (simp add: call_method_def bind_args_def)
qed

text \<open>
  C3, as stated, fails for \<open>generate_exercise\<close>: its parameters stand after a bare
  \<open>*\<close>, so the positional call \<open>provider.generate_exercise("fill_blank", "beginner")\<close>
  raises \<open>TypeError\<close>.
\<close>

theorem generate_exercise_positional_counterexample:
  "call_method generate_exercise_sig (PyRef 0) [PyStr ''fill_blank'', PyStr ''beginner''] []
     = Inl TypeError"
  by (simp add: call_method_def bind_args_def generate_exercise_sig_def)

text \<open>
  C3, amended. Called on a provider, \<open>evaluate_response\<close> and \<open>provide_feedback\<close>
  accept \<open>exercise\<close> and \<open>response\<close> positionally, in that order, and collect the extra
  keyword arguments unchanged. \<open>generate_exercise\<close> takes \<open>exercise_type\<close> and
  \<open>level\<close> as keyword arguments only: passed by keyword they are bound and the other
  keywords collected unchanged, and every call with a positional argument raises
  \<open>TypeError\<close>. The extra keywords are distinct and none repeats the name of a
  parameter of the operation, \<open>self\<close> included.
\<close>

theorem operations_argument_passing:
  assumes "distinct (map fst kws)" and "''self'' \<notin> fst ` set kws"
  shows "(''exercise'' \<notin> fst ` set kws \<and> ''response'' \<notin> fst ` set kws \<longrightarrow>
            call_method evaluate_response_sig rcv [ex, resp] kws =
              Inr ([(''self'', rcv), (''exercise'', ex), (''response'', resp)], kws)
          \<and> call_method provide_feedback_sig rcv [ex, resp] kws =
              Inr ([(''self'', rcv), (''exercise'', ex), (''response'', resp)], kws))
       \<and> (''exercise_type'' \<notin> fst ` set kws \<and> ''level'' \<notin> fst ` set kws \<longrightarrow>
            call_method generate_exercise_sig rcv []
                ((''exercise_type'', ty) # (''level'', lv) # kws) =
              Inr ([(''self'', rcv), (''exercise_type'', ty), (''level'', lv)], kws))
       \<and> call_method generate_exercise_sig rcv (x # args) any_kws = Inl TypeError"
proof (intro conjI impI)
  assume a: "''exercise'' \<notin> fst ` set kws \<and> ''response'' \<notin> fst ` set kws"
  have "bind_keywords evaluate_response_sig
          [(''self'', rcv), (''exercise'', ex), (''response'', resp)] [] kws =
      Inr ([(''self'', rcv), (''exercise'', ex), (''response'', resp)], [] @ kws)"
    using assms a by (intro bind_keywords_extra) (auto simp add: evaluate_response_sig_def)
  then show "call_method evaluate_response_sig rcv [ex, resp] kws =
      Inr ([(''self'', rcv), (''exercise'', ex), (''response'', resp)], kws)"
    by (simp add: call_method_def bind_args_def evaluate_response_sig_def)
  have "bind_keywords provide_feedback_sig
          [(''self'', rcv), (''exercise'', ex), (''response'', resp)] [] kws =
      Inr ([(''self'', rcv), (''exercise'', ex), (''response'', resp)], [] @ kws)"
    using assms a by (intro bind_keywords_extra) (auto simp add: provide_feedback_sig_def)
  then show "call_method provide_feedback_sig rcv [ex, resp] kws =
      Inr ([(''self'', rcv), (''exercise'', ex), (''response'', resp)], kws)"
    by (simp add: call_method_def bind_args_def provide_feedback_sig_def)
next
  assume a: "''exercise_type'' \<notin> fst ` set kws \<and> ''level'' \<notin> fst ` set kws"
  have "bind_keywords generate_exercise_sig
          [(''self'', rcv), (''exercise_type'', ty), (''level'', lv)] [] kws =
      Inr ([(''self'', rcv), (''exercise_type'', ty), (''level'', lv)], [] @ kws)"
    using assms a by (intro bind_keywords_extra) (auto simp add: generate_exercise_sig_def)
  then show "call_method generate_exercise_sig rcv []
        ((''exercise_type'', ty) # (''level'', lv) # kws) =
      Inr ([(''self'', rcv), (''exercise_type'', ty), (''level'', lv)], kws)"
    by (simp add: call_method_def bind_args_def generate_exercise_sig_def)
next
  show "call_method generate_exercise_sig rcv (x # args) any_kws = Inl TypeError"
    by (simp add: call_method_def bind_args_def generate_exercise_sig_def)
qed

text \<open>
  The amended C3 at calls on a provider with one extra keyword \<open>hint=True\<close>.
\<close>

theorem operations_argument_passing_witness:
  "distinct (map fst [(''hint'', PyBool True)])
   \<and> ''self'' \<notin> fst ` set [(''hint'', PyBool True)]
   \<and> ''exercise'' \<notin> fst ` set [(''hint'', PyBool True)]
   \<and> ''response'' \<notin> fst ` set [(''hint'', PyBool True)]
   \<and> ''exercise_type'' \<notin> fst ` set [(''hint'', PyBool True)]
   \<and> ''level'' \<notin> fst ` set [(''hint'', PyBool True)]
   \<and> call_method evaluate_response_sig (PyRef 1) [PyRef 0, PyStr ''sat'']
         [(''hint'', PyBool True)] =
       Inr ([(''self'', PyRef 1), (''exercise'', PyRef 0), (''response'', PyStr ''sat'')],
            [(''hint'', PyBool True)])
   \<and> call_method provide_feedback_sig (PyRef 1) [PyRef 0, PyStr ''sat'']
         [(''hint'', PyBool True)] =
       Inr ([(''self'', PyRef 1), (''exercise'', PyRef 0), (''response'', PyStr ''sat'')],
            [(''hint'', PyBool True)])
   \<and> call_method generate_exercise_sig (PyRef 1) []
         [(''exercise_type'', PyStr ''fill_blank''), (''level'', PyStr ''beginner''),
          (''hint'', PyBool True)] =
       Inr ([(''self'', PyRef 1), (''exercise_type'', PyStr ''fill_blank''),
             (''level'', PyStr ''beginner'')],
            [(''hint'', PyBool True)])
   \<and> call_method generate_exercise_sig (PyRef 1) [PyStr ''fill_blank'', PyStr ''beginner'']
         [(''hint'', PyBool True)] = Inl TypeError"
proof -
  have d: "distinct (map fst [(''hint'', PyBool True)])"
    by simp
  have s: "''self'' \<notin> fst ` set [(''hint'', PyBool True)]"
    by simp
  show ?thesis
    using operations_argument_passing [OF d s, of "PyRef 1" "PyRef 0" "PyStr ''sat''"
        "PyStr ''fill_blank''" "PyStr ''beginner''" "PyStr ''fill_blank''" "[PyStr ''beginner'']"
        "[(''hint'', PyBool True)]"]
    by simp
qed

subsection \<open>Instantiating the interface\<close>

lemma map_of_Some_fst: "map_of xs k = Some v \<Longrightarrow> k \<in> set (map fst xs)"
  by (metis map_of_SomeD image_eqI fst_conv set_map)

lemma define_class_keeps_abstract:
  assumes "map_of (methods c) n = Some Concrete
           \<or> (map_of (methods c) n = Some Abstract \<and> n \<in> set (abstractmethods c))"
  shows "map_of (methods (define_class c ns)) n = Some Concrete
         \<or> (map_of (methods (define_class c ns)) n = Some Abstract
            \<and> n \<in> set (abstractmethods (define_class c ns)))"
proof (cases "map_of ns n")
  case None
  then have "map_of (ns @ methods c) n = map_of (methods c) n"
    by (simp add: map_add_def)
  with assms show ?thesis
    by (auto simp add: define_class_def Let_def)
next
  case (Some k)
  then have eq: "map_of (ns @ methods c) n = Some k"
    by (simp add: map_add_def)
  from Some have "n \<in> set (map fst ns)"
    by (rule map_of_Some_fst)
  with eq show ?thesis
    by (cases k) (auto simp add: define_class_def Let_def)
qed

lemma subclass_chain_keeps_abstract:
  assumes "map_of (methods c) n = Some Concrete
           \<or> (map_of (methods c) n = Some Abstract \<and> n \<in> set (abstractmethods c))"
  shows "map_of (methods (subclass_chain c chain)) n = Some Concrete
         \<or> (map_of (methods (subclass_chain c chain)) n = Some Abstract
            \<and> n \<in> set (abstractmethods (subclass_chain c chain)))"
  using assms
proof (induction chain arbitrary: c)
  case Nil
  then show ?case by simp
next
  case (Cons ns chain)
  from Cons.prems have "map_of (methods (define_class c ns)) n = Some Concrete
         \<or> (map_of (methods (define_class c ns)) n = Some Abstract
            \<and> n \<in> set (abstractmethods (define_class c ns)))"
    by (rule define_class_keeps_abstract)
  then show ?case
    using Cons.IH [of "define_class c ns"] by simp
qed

lemma SLMInterface_methods:
  "methods SLMInterface =
     [(''generate_exercise'', Abstract), (''evaluate_response'', Abstract),
      (''provide_feedback'', Abstract)]"
  "abstractmethods SLMInterface =
     [''generate_exercise'', ''evaluate_response'', ''provide_feedback'']"
  by (simp_all add: SLMInterface_def define_class_def ABC_def)

text \<open>
  C10. Instantiating \<open>SLMInterface\<close> itself raises \<open>TypeError\<close>. And for every class
  derived from it through any chain of subclasses: if an instance of the class can be
  created, then each of \<open>generate_exercise\<close>, \<open>evaluate_response\<close> and
  \<open>provide_feedback\<close> resolves to a concrete definition in it.
\<close>

theorem SLMInterface_not_instantiable:
  "instantiate SLMInterface = Inl TypeError
   \<and> (instantiate (subclass_chain SLMInterface chain) = Inr () \<longrightarrow>
        map_of (methods (subclass_chain SLMInterface chain)) ''generate_exercise'' = Some Concrete
      \<and> map_of (methods (subclass_chain SLMInterface chain)) ''evaluate_response'' = Some Concrete
      \<and> map_of (methods (subclass_chain SLMInterface chain)) ''provide_feedback'' = Some Concrete)"
proof (intro conjI impI)
  show "instantiate SLMInterface = Inl TypeError"
    by (simp add: instantiate_def SLMInterface_methods)
next
  assume "instantiate (subclass_chain SLMInterface chain) = Inr ()"
  then have none: "abstractmethods (subclass_chain SLMInterface chain) = []"
    by (simp add: instantiate_def split: if_splits)
  have "map_of (methods (subclass_chain SLMInterface chain)) ''generate_exercise'' = Some Concrete
      \<or> (map_of (methods (subclass_chain SLMInterface chain)) ''generate_exercise'' = Some Abstract
         \<and> ''generate_exercise'' \<in> set (abstractmethods (subclass_chain SLMInterface chain)))"
    by (rule subclass_chain_keeps_abstract) (simp add: SLMInterface_methods)
  with none show "map_of (methods (subclass_chain SLMInterface chain)) ''generate_exercise'' = Some Concrete"
    by simp
  have "map_of (methods (subclass_chain SLMInterface chain)) ''evaluate_response'' = Some Concrete
      \<or> (map_of (methods (subclass_chain SLMInterface chain)) ''evaluate_response'' = Some Abstract
         \<and> ''evaluate_response'' \<in> set (abstractmethods (subclass_chain SLMInterface chain)))"
    by (rule subclass_chain_keeps_abstract) (simp add: SLMInterface_methods)
  with none show "map_of (methods (subclass_chain SLMInterface chain)) ''evaluate_response'' = Some Concrete"
    by simp
  have "map_of (methods (subclass_chain SLMInterface chain)) ''provide_feedback'' = Some Concrete
      \<or> (map_of (methods (subclass_chain SLMInterface chain)) ''provide_feedback'' = Some Abstract
         \<and> ''provide_feedback'' \<in> set (abstractmethods (subclass_chain SLMInterface chain)))"
    by (rule subclass_chain_keeps_abstract) (simp add: SLMInterface_methods)
  with none show "map_of (methods (subclass_chain SLMInterface chain)) ''provide_feedback'' = Some Concrete"
    by simp
qed

text \<open>
  C10 at a subclass that defines all three operations (an instance is created), next
  to one that leaves \<open>provide_feedback\<close> out (\<open>TypeError\<close>).
\<close>

theorem SLMInterface_not_instantiable_witness:
  "instantiate (subclass_chain SLMInterface
       [[(''generate_exercise'', Concrete), (''evaluate_response'', Concrete),
         (''provide_feedback'', Concrete)]]) = Inr ()
   \<and> map_of (methods (subclass_chain SLMInterface
       [[(''generate_exercise'', Concrete), (''evaluate_response'', Concrete),
         (''provide_feedback'', Concrete)]])) ''provide_feedback'' = Some Concrete
   \<and> instantiate (subclass_chain SLMInterface
       [[(''generate_exercise'', Concrete), (''evaluate_response'', Concrete)]]) = Inl TypeError"
proof -
  have ok: "instantiate (subclass_chain SLMInterface
       [[(''generate_exercise'', Concrete), (''evaluate_response'', Concrete),
         (''provide_feedback'', Concrete)]]) = Inr ()"
    by (simp add: instantiate_def define_class_def SLMInterface_methods)
  have "instantiate (subclass_chain SLMInterface
       [[(''generate_exercise'', Concrete), (''evaluate_response'', Concrete)]]) = Inl TypeError"
    by (simp add: instantiate_def define_class_def SLMInterface_methods)
  with ok show ?thesis
    using SLMInterface_not_instantiable
      [of "[[(''generate_exercise'', Concrete), (''evaluate_response'', Concrete),
             (''provide_feedback'', Concrete)]]"]
    by blast
qed

subsection \<open>The fields of the two records\<close>

text \<open>
  C7. The fields of \<open>Exercise\<close> are exactly \<open>prompt\<close>, \<open>options\<close>, \<open>answer\<close> and
  \<open>metadata\<close>, and those of \<open>Evaluation\<close> exactly \<open>is_correct\<close>, \<open>score\<close> and
  \<open>feedback\<close>: the declared field lists are these, and a value of either record is
  nothing but the values of these fields. None of them is an identifier, and no
  field's annotation names a class, so none refers to the other record type.
\<close>

theorem declared_fields_exact:
  "map fst Exercise_fields = [''prompt'', ''options'', ''answer'', ''metadata'']
   \<and> map fst Evaluation_fields = [''is_correct'', ''score'', ''feedback'']
   \<and> concat (map (class_names \<circ> snd) (Exercise_fields @ Evaluation_fields)) = []
   \<and> (e::Exercise) =
       \<lparr>prompt = prompt e, options = options e, answer = answer e, metadata = metadata e\<rparr>
   \<and> (v::Evaluation) = \<lparr>is_correct = is_correct v, score = score v, feedback = feedback v\<rparr>"
  by (simp add: Exercise_fields_def Evaluation_fields_def)

end
